theory Spec2Isabelle
  imports Complex_Main
begin

section \<open>Setting the PID parameters of a Stabilizer channel (\<^verbatim>\<open>py/stabilizer/set_pid.py\<close>)\<close>

text \<open>
  The script parses its command line, resolves the MQTT prefix of one device (by discovery or
  by taking the caller's prefix as it is), opens a Miniconf interface to it and sets the path
  \<^verbatim>\<open>/pid_ch/<channel>\<close> to a dictionary of eight entries. The development below embeds
  \<^verbatim>\<open>_main\<close> and its nested coroutine \<^verbatim>\<open>configure\<close>; the \<^verbatim>\<open>miniconf\<close> package and the
  helper \<^verbatim>\<open>stabilizer.voltage_to_machine_units\<close> are collaborators whose code is not part of
  the script, so they are parameters of the model. Every call to a collaborator is recorded,
  in program order, in a call trace, and every exception is a value.
\<close>

subsection \<open>Parsed arguments\<close>

text \<open>
  The namespace returned by \<^verbatim>\<open>parser.parse_args()\<close>. The type \<open>'f\<close> stands for the values
  argparse produces for the \<^verbatim>\<open>type=float\<close> options: nothing in the script computes with them,
  so the model does not fix their representation. \<^verbatim>\<open>--channel\<close> is an \<^verbatim>\<open>int\<close> that argparse
  restricts to the choices 0 and 1.
\<close>

record 'f args =
  verbose :: nat
  broker :: string
  prefix :: string
  no_discover :: bool
  channel :: int
  sample_period :: 'f
  x_offset :: 'f
  y_min :: 'f
  y_max :: 'f
  y_offset :: 'f
  p :: 'f
  i :: 'f
  d :: 'f
  i_limit :: 'f

subsection \<open>Values, exceptions and the call trace\<close>

text \<open>
  A value of the dictionary handed to \<^verbatim>\<open>interface.set\<close> is either a command-line value taken
  as it is, or the result of \<^verbatim>\<open>voltage_to_machine_units\<close>.
\<close>

datatype ('f, 'u) pyval = Arg 'f | Units 'u

type_synonym ('f, 'u) payload = "(string \<times> ('f, 'u) pyval) list"

text \<open>
  The argument of the \<^verbatim>\<open>ValueError\<close>s raised by the script is an f-string: literal text and
  formatted values (here only the list of discovered prefixes). \<open>Foreign\<close> wraps an exception
  raised inside a collaborator, which the script never catches.
\<close>

datatype fpart = Lit string | Fmt "string list"

datatype 'x error = ValueError "fpart list" | Foreign 'x

datatype ('f, 'u, 'h) event =
    DiscoverCall string string
  | CreateCall string string
  | ConvertCall 'f
  | SetCall 'h string "('f, 'u) payload"

text \<open>
  The collaborators: \<^verbatim>\<open>miniconf.discover(broker, prefix)\<close>,
  \<^verbatim>\<open>miniconf.Miniconf.create(prefix, broker)\<close>, \<^verbatim>\<open>interface.set(path, value)\<close> and
  \<^verbatim>\<open>stabilizer.voltage_to_machine_units(voltage)\<close>. Each either returns or raises.
\<close>

record ('f, 'u, 'x, 'h) world =
  miniconf_discover :: "string \<Rightarrow> string \<Rightarrow> 'x + string list"
  miniconf_create :: "string \<Rightarrow> string \<Rightarrow> 'x + 'h"
  interface_set :: "'h \<Rightarrow> string \<Rightarrow> ('f, 'u) payload \<Rightarrow> 'x + unit"
  voltage_to_machine_units :: "'f \<Rightarrow> 'x + 'u"

subsection \<open>Sequencing: a trace and a result\<close>

type_synonym ('ev, 'e, 'a) run = "'ev list \<times> ('e + 'a)"

definition returns :: "'a \<Rightarrow> ('ev, 'e, 'a) run" where
  "returns a = ([], Inr a)"

definition raise :: "'e \<Rightarrow> ('ev, 'e, 'a) run" where
  "raise e = ([], Inl e)"

definition bind :: "('ev, 'e, 'a) run \<Rightarrow> ('a \<Rightarrow> ('ev, 'e, 'b) run) \<Rightarrow> ('ev, 'e, 'b) run" where
  "bind m f =
     (case m of
        (t, Inl e) \<Rightarrow> (t, Inl e)
      | (t, Inr a) \<Rightarrow> (case f a of (t', r) \<Rightarrow> (t @ t', r)))"

definition call :: "'ev \<Rightarrow> 'x + 'a \<Rightarrow> ('ev, 'x error, 'a) run" where
  "call ev r = ([ev], case r of Inl x \<Rightarrow> Inl (Foreign x) | Inr a \<Rightarrow> Inr a)"

subsection \<open>Formatting the channel\<close>

text \<open>\<^verbatim>\<open>f"{args.channel}"\<close> is \<^verbatim>\<open>str\<close> of a Python \<^verbatim>\<open>int\<close>: decimal digits, a minus sign first.\<close>

definition digit_char :: "nat \<Rightarrow> char" where
  "digit_char n = ''0123456789'' ! (n mod 10)"

fun str_nat :: "nat \<Rightarrow> string" where
  "str_nat n = (if n < 10 then [digit_char n] else str_nat (n div 10) @ [digit_char n])"

declare str_nat.simps [simp del]

definition str_int :: "int \<Rightarrow> string" where
  "str_int k = (if k < 0 then CHR ''-'' # str_nat (nat (- k)) else str_nat (nat k))"

subsection \<open>The script\<close>

definition convert :: "('f, 'u, 'x, 'h) world \<Rightarrow> 'f \<Rightarrow> (('f, 'u, 'h) event, 'x error, 'u) run" where
  "convert w v = call (ConvertCall v) (voltage_to_machine_units w v)"

text \<open>
  \<^verbatim>\<open>configure\<close> closes over \<^verbatim>\<open>prefix\<close> and \<^verbatim>\<open>args\<close>. It awaits \<^verbatim>\<open>Miniconf.create\<close> first; the
  arguments of \<^verbatim>\<open>interface.set\<close> are evaluated after that, the dictionary entries from top to
  bottom, and then the one call to \<^verbatim>\<open>set\<close> is awaited.
\<close>

definition configure ::
  "('f, 'u, 'x, 'h) world \<Rightarrow> 'f args \<Rightarrow> string \<Rightarrow> (('f, 'u, 'h) event, 'x error, unit) run" where
  "configure w a prefix' =
     bind (call (CreateCall prefix' (broker a)) (miniconf_create w prefix' (broker a))) (\<lambda>interface.
     bind (convert w (x_offset a)) (\<lambda>xo.
     bind (convert w (y_offset a)) (\<lambda>yo.
     bind (convert w (y_min a)) (\<lambda>ymin.
     bind (convert w (y_max a)) (\<lambda>ymax.
     bind (convert w (i_limit a)) (\<lambda>il.
       let path = ''/pid_ch/'' @ str_int (channel a);
           val = [(''p'', Arg (p a)),
                  (''i'', Arg (i a)),
                  (''d'', Arg (d a)),
                  (''x_offset'', Units xo),
                  (''y_offset'', Units yo),
                  (''y_min'', Units ymin),
                  (''y_max'', Units ymax),
                  (''i_limit'', Units il)]
       in call (SetCall interface path val) (interface_set w interface path val)))))))"

text \<open>
  \<^verbatim>\<open>_main\<close> after \<^verbatim>\<open>parse_args\<close>: the prefix is the caller's when \<^verbatim>\<open>--no-discover\<close> is given;
  otherwise \<^verbatim>\<open>miniconf.discover\<close> is run, an empty result and a result of more than one prefix
  raise \<^verbatim>\<open>ValueError\<close>, and \<^verbatim>\<open>devices.pop()\<close> takes the last (the only) element. Then
  \<^verbatim>\<open>configure\<close> is run. The logging calls are left out.
\<close>

definition main ::
  "('f, 'u, 'x, 'h) world \<Rightarrow> 'f args \<Rightarrow> (('f, 'u, 'h) event, 'x error, unit) run" where
  "main w a =
     bind (if no_discover a then returns (prefix a)
           else bind (call (DiscoverCall (broker a) (prefix a))
                           (miniconf_discover w (broker a) (prefix a))) (\<lambda>devices.
                  if devices = [] then raise (ValueError [Lit ''No prefixes discovered.''])
                  else if length devices > 1 then
                    raise (ValueError [Lit ''Multiple prefixes discovered ('', Fmt devices,
                                       Lit '').Please specify a more specific --prefix''])
                  else returns (last devices)))
          (\<lambda>prefix'. configure w a prefix')"

subsection \<open>Reading a call trace\<close>

text \<open>The configuration writes of a trace, in order: interface, path and value of every \<^verbatim>\<open>set\<close>.\<close>

fun writes :: "('f, 'u, 'h) event list \<Rightarrow> ('h \<times> string \<times> ('f, 'u) payload) list" where
  "writes [] = []"
| "writes (SetCall h path val # t) = (h, path, val) # writes t"
| "writes (DiscoverCall b pat # t) = writes t"
| "writes (CreateCall pre b # t) = writes t"
| "writes (ConvertCall v # t) = writes t"

definition write_paths :: "('f, 'u, 'h) event list \<Rightarrow> string list" where
  "write_paths t = map (\<lambda>(h, path, val). path) (writes t)"

definition write_keys :: "('f, 'u, 'h) event list \<Rightarrow> string list list" where
  "write_keys t = map (\<lambda>(h, path, val). map fst val) (writes t)"

definition write_field :: "string \<Rightarrow> ('f, 'u, 'h) event list \<Rightarrow> ('f, 'u) pyval option list" where
  "write_field k t = map (\<lambda>(h, path, val). map_of val k) (writes t)"

text \<open>The discovery queries of a trace: broker and pattern of every \<^verbatim>\<open>discover\<close>.\<close>

fun discoveries :: "('f, 'u, 'h) event list \<Rightarrow> (string \<times> string) list" where
  "discoveries [] = []"
| "discoveries (DiscoverCall b pat # t) = (b, pat) # discoveries t"
| "discoveries (CreateCall pre b # t) = discoveries t"
| "discoveries (ConvertCall v # t) = discoveries t"
| "discoveries (SetCall h path val # t) = discoveries t"

text \<open>The prefixes an exception carries in its formatted fields.\<close>

fun part_addresses :: "fpart \<Rightarrow> string list" where
  "part_addresses (Lit s) = []"
| "part_addresses (Fmt ds) = ds"

fun carried :: "'x error \<Rightarrow> string list" where
  "carried (ValueError ps) = concat (map part_addresses ps)"
| "carried (Foreign x) = []"

subsection \<open>The order of the steps\<close>

text \<open>
  The position of each kind of call in the order in which the script makes them: discovery,
  opening the interface, conversion, write.
\<close>

fun step_of_code :: "('f, 'u, 'h) event \<Rightarrow> nat" where
  "step_of_code (DiscoverCall b pat) = 0"
| "step_of_code (CreateCall pre b) = 1"
| "step_of_code (ConvertCall v) = 2"
| "step_of_code (SetCall h path val) = 3"

text \<open>
  The same positions in the state machine as the specification words it:
  Resolving, Converting, SessionOpen, Writing.
\<close>

fun step_of_spec :: "('f, 'u, 'h) event \<Rightarrow> nat" where
  "step_of_spec (DiscoverCall b pat) = 0"
| "step_of_spec (ConvertCall v) = 1"
| "step_of_spec (CreateCall pre b) = 2"
| "step_of_spec (SetCall h path val) = 3"

subsection \<open>The conversion as the specification describes it\<close>

text \<open>
  Modelled from the spec: the body of \<^verbatim>\<open>stabilizer.voltage_to_machine_units\<close> (module
  \<^verbatim>\<open>py/stabilizer/__init__.py\<close>, not among the sources at hand). The specification gives it as
  the voltage times machine range over full-scale voltage, rounded; the rounding rule \<open>rnd\<close>
  is left open there and is a parameter here.
\<close>

definition to_machine_units :: "(real \<Rightarrow> int) \<Rightarrow> real \<Rightarrow> real \<Rightarrow> real \<Rightarrow> int" where
  "to_machine_units rnd full_scale machine_range voltage =
     rnd (voltage * (machine_range / full_scale))"

subsection \<open>Concrete collaborators and arguments\<close>

text \<open>
  A bench on which discovery answers with a given list of prefixes, the interface is the pair
  of prefix and broker, every write is acknowledged, and the conversion is the one of the
  specification with a full scale of 10 V, a machine range of \<open>2 ^ 15\<close> and rounding to the
  nearest integer.
\<close>

definition bench :: "string list \<Rightarrow> (real, int, string, string \<times> string) world" where
  "bench devices =
     \<lparr> miniconf_discover = (\<lambda>b pat. Inr devices),
       miniconf_create = (\<lambda>pre b. Inr (pre, b)),
       interface_set = (\<lambda>h path val. Inr ()),
       voltage_to_machine_units = (\<lambda>v. Inr (to_machine_units round 10 (2 ^ 15) v)) \<rparr>"

text \<open>The same bench with a device that rejects every write.\<close>

definition bench_rejecting :: "string list \<Rightarrow> (real, int, string, string \<times> string) world" where
  "bench_rejecting devices = (bench devices) \<lparr> interface_set := (\<lambda>h path val. Inl ''rejected'') \<rparr>"

text \<open>Channel 0 with P = 1.5, I = 0.2, D = 0 and an integrator limit of 5 V.\<close>

definition example_args :: "real args" where
  "example_args =
     \<lparr> verbose = 0, broker = ''mqtt'', prefix = ''dt/sinara/dual-pid/+'', no_discover = False,
       channel = 0, sample_period = 1 / 1000000, x_offset = 0, y_min = - 10, y_max = 10,
       y_offset = 0, p = 3 / 2, i = 1 / 5, d = 0, i_limit = 5 \<rparr>"

text \<open>The dictionary the bench receives for \<open>example_args\<close>.\<close>

definition example_value :: "(real, int) payload" where
  "example_value =
     [(''p'', Arg (3 / 2)), (''i'', Arg (1 / 5)), (''d'', Arg 0), (''x_offset'', Units 0),
      (''y_offset'', Units 0), (''y_min'', Units (- 32768)), (''y_max'', Units 32768),
      (''i_limit'', Units 16384)]"

text \<open>Arguments no sanity check would accept: the minimum above the maximum, an offset of 1000 V.\<close>

definition odd_args :: "real args" where
  "odd_args = example_args \<lparr> no_discover := True, prefix := ''dt/sinara/dual-pid/00'',
                             channel := 1, x_offset := 1000, y_min := 10, y_max := - 10 \<rparr>"

text \<open>The dictionary the bench receives for \<open>odd_args\<close>.\<close>

definition odd_value :: "(real, int) payload" where
  "odd_value =
     [(''p'', Arg (3 / 2)), (''i'', Arg (1 / 5)), (''d'', Arg 0), (''x_offset'', Units 3276800),
      (''y_offset'', Units 0), (''y_min'', Units 32768), (''y_max'', Units (- 32768)),
      (''i_limit'', Units 16384)]"

section \<open>Properties\<close>

subsection \<open>Shared facts\<close>

lemmas run_defs = bind_def call_def returns_def raise_def convert_def Let_def

lemma str_int_0: "str_int 0 = ''0''"
  by (simp add: str_int_def str_nat.simps digit_char_def)

lemma str_int_1: "str_int 1 = ''1''"
  by (simp add: str_int_def str_nat.simps digit_char_def)

lemma writes_append: "writes (t @ t') = writes t @ writes t'"
  by (induction t rule: writes.induct) simp_all

lemma discoveries_append: "discoveries (t @ t') = discoveries t @ discoveries t'"
  by (induction t rule: discoveries.induct) simp_all

text \<open>
  What \<^verbatim>\<open>configure\<close> does when the interface opens and the five conversions return: six
  calls, then the write, whose outcome is the outcome of the run.
\<close>

lemma configure_through:
  assumes "miniconf_create w pre (broker a) = Inr h"
    and "voltage_to_machine_units w (x_offset a) = Inr xo"
    and "voltage_to_machine_units w (y_offset a) = Inr yo"
    and "voltage_to_machine_units w (y_min a) = Inr ymin"
    and "voltage_to_machine_units w (y_max a) = Inr ymax"
    and "voltage_to_machine_units w (i_limit a) = Inr il"
    and "val = [(''p'', Arg (p a)), (''i'', Arg (i a)), (''d'', Arg (d a)),
                (''x_offset'', Units xo), (''y_offset'', Units yo), (''y_min'', Units ymin),
                (''y_max'', Units ymax), (''i_limit'', Units il)]"
    and "path = ''/pid_ch/'' @ str_int (channel a)"
  shows "configure w a pre =
           ([CreateCall pre (broker a), ConvertCall (x_offset a), ConvertCall (y_offset a),
             ConvertCall (y_min a), ConvertCall (y_max a), ConvertCall (i_limit a),
             SetCall h path val],
            case interface_set w h path val of Inl x \<Rightarrow> Inl (Foreign x) | Inr u \<Rightarrow> Inr u)"
  using assms by (simp add: configure_def run_defs)

text \<open>Every write of \<^verbatim>\<open>configure\<close> is the last call of a run of that shape.\<close>

lemma configure_write:
  assumes "(h, path, val) \<in> set (writes (fst (configure w a pre)))"
  shows "\<exists>xo yo ymin ymax il.
           miniconf_create w pre (broker a) = Inr h \<and>
           voltage_to_machine_units w (x_offset a) = Inr xo \<and>
           voltage_to_machine_units w (y_offset a) = Inr yo \<and>
           voltage_to_machine_units w (y_min a) = Inr ymin \<and>
           voltage_to_machine_units w (y_max a) = Inr ymax \<and>
           voltage_to_machine_units w (i_limit a) = Inr il \<and>
           path = ''/pid_ch/'' @ str_int (channel a) \<and>
           val = [(''p'', Arg (p a)), (''i'', Arg (i a)), (''d'', Arg (d a)),
                  (''x_offset'', Units xo), (''y_offset'', Units yo), (''y_min'', Units ymin),
                  (''y_max'', Units ymax), (''i_limit'', Units il)]"
  using assms by (auto simp: configure_def run_defs split: sum.splits)

lemma configure_writes_le: "length (writes (fst (configure w a pre))) \<le> 1"
  by (auto simp: configure_def run_defs split: sum.splits)

lemma configure_no_discovery: "discoveries (fst (configure w a pre)) = []"
  by (auto simp: configure_def run_defs split: sum.splits)

lemma configure_steps: "sorted (map step_of_code (fst (configure w a pre)))"
  by (auto simp: configure_def run_defs split: sum.splits)

subsection \<open>The decimal rendering is injective\<close>

lemma digit_char_inj: "digit_char m = digit_char n \<Longrightarrow> m mod 10 = n mod 10"
proof -
  assume h: "digit_char m = digit_char n"
  have d: "distinct ''0123456789''" by simp
  have "m mod 10 < length ''0123456789''" "n mod 10 < length ''0123456789''" by simp_all
  with d h show ?thesis unfolding digit_char_def by (simp only: nth_eq_iff_index_eq)
qed

lemma digit_char_in: "digit_char n \<in> set ''0123456789''"
  unfolding digit_char_def by (rule nth_mem) simp

lemma str_nat_nonempty: "str_nat n \<noteq> []"
  by (subst str_nat.simps) simp

lemma str_nat_last: "last (str_nat n) = digit_char n"
  by (subst str_nat.simps) simp

lemma str_nat_butlast: "butlast (str_nat n) = (if n < 10 then [] else str_nat (n div 10))"
  by (subst str_nat.simps) simp

lemma str_nat_digits: "set (str_nat n) \<subseteq> set ''0123456789''"
proof (induction n rule: str_nat.induct)
  case (1 n)
  show ?case
  proof (cases "n < 10")
    case True
    then show ?thesis using digit_char_in [of n] by (subst str_nat.simps) simp
  next
    case False
    then show ?thesis using 1 digit_char_in [of n] by (subst str_nat.simps) simp
  qed
qed

lemma str_nat_inj: "str_nat m = str_nat n \<Longrightarrow> m = n"
proof (induction m arbitrary: n rule: str_nat.induct)
  case (1 m)
  from "1.prems" have l: "digit_char m = digit_char n"
    using str_nat_last by metis
  then have md: "m mod 10 = n mod 10" by (rule digit_char_inj)
  from "1.prems" have b: "butlast (str_nat m) = butlast (str_nat n)" by simp
  show ?case
  proof (cases "m < 10")
    case True
    with b have "n < 10" using str_nat_nonempty [of "n div 10"]
      by (auto simp: str_nat_butlast split: if_splits)
    with True md show ?thesis by simp
  next
    case False
    with b have n: "\<not> n < 10" using str_nat_nonempty [of "m div 10"]
      by (auto simp: str_nat_butlast split: if_splits)
    with False b have "str_nat (m div 10) = str_nat (n div 10)"
      by (simp add: str_nat_butlast)
    with False "1.IH" have "m div 10 = n div 10" by simp
    with md show ?thesis by (metis div_mult_mod_eq)
  qed
qed

lemma str_int_inj: "str_int j = str_int k \<Longrightarrow> j = k"
proof -
  assume h: "str_int j = str_int k"
  have nm: "\<And>n. hd (str_nat n) \<noteq> CHR ''-''"
  proof -
    fix n
    have "hd (str_nat n) \<in> set (str_nat n)" using str_nat_nonempty by simp
    then have "hd (str_nat n) \<in> set ''0123456789''" using str_nat_digits by blast
    then show "hd (str_nat n) \<noteq> CHR ''-''" by auto
  qed
  show ?thesis
  proof (cases "j < 0")
    case True
    show ?thesis
    proof (cases "k < 0")
      case True
      with \<open>j < 0\<close> h have "nat (- j) = nat (- k)" by (simp add: str_int_def str_nat_inj)
      with True \<open>j < 0\<close> show ?thesis by simp
    next
      case False
      with \<open>j < 0\<close> h have "CHR ''-'' # str_nat (nat (- j)) = str_nat (nat k)" by (simp add: str_int_def)
      then have "hd (str_nat (nat k)) = CHR ''-''" by (metis list.sel(1))
      with nm show ?thesis by blast
    qed
  next
    case False
    show ?thesis
    proof (cases "k < 0")
      case True
      with False h have "str_nat (nat j) = CHR ''-'' # str_nat (nat (- k))" by (simp add: str_int_def)
      then have "hd (str_nat (nat j)) = CHR ''-''" by (metis list.sel(1))
      with nm show ?thesis by blast
    next
      case k: False
      with False h have "nat j = nat k" by (simp add: str_int_def str_nat_inj)
      with False k show ?thesis by simp
    qed
  qed
qed

subsection \<open>The runs of the script\<close>

lemma main_no_discover: "no_discover a \<Longrightarrow> main w a = configure w a (prefix a)"
  by (cases "configure w a (prefix a)") (simp add: main_def bind_def returns_def)

lemma main_discover_raises:
  assumes "\<not> no_discover a"
    and "miniconf_discover w (broker a) (prefix a) = Inl x"
  shows "main w a = ([DiscoverCall (broker a) (prefix a)], Inl (Foreign x))"
  using assms by (simp add: main_def run_defs)

lemma main_discover_none:
  assumes "\<not> no_discover a"
    and "miniconf_discover w (broker a) (prefix a) = Inr []"
  shows "main w a =
           ([DiscoverCall (broker a) (prefix a)], Inl (ValueError [Lit ''No prefixes discovered.'']))"
  using assms by (simp add: main_def run_defs)

lemma main_discover_many:
  assumes "\<not> no_discover a"
    and "miniconf_discover w (broker a) (prefix a) = Inr ds"
    and "1 < length ds"
  shows "main w a =
           ([DiscoverCall (broker a) (prefix a)],
            Inl (ValueError [Lit ''Multiple prefixes discovered ('', Fmt ds,
                             Lit '').Please specify a more specific --prefix'']))"
  using assms by (auto simp: main_def run_defs)

lemma main_discover_one:
  assumes "\<not> no_discover a"
    and "miniconf_discover w (broker a) (prefix a) = Inr [dev]"
  shows "main w a =
           (DiscoverCall (broker a) (prefix a) # fst (configure w a dev), snd (configure w a dev))"
  using assms by (cases "configure w a dev") (simp add: main_def run_defs)

text \<open>The four ways a run of \<^verbatim>\<open>_main\<close> can go.\<close>

lemma main_shape:
  "main w a = configure w a (prefix a) \<and> no_discover a
   \<or> (\<exists>dev. main w a = (DiscoverCall (broker a) (prefix a) # fst (configure w a dev),
                          snd (configure w a dev))
            \<and> \<not> no_discover a \<and> miniconf_discover w (broker a) (prefix a) = Inr [dev])
   \<or> (\<exists>e. main w a = ([DiscoverCall (broker a) (prefix a)], Inl e) \<and> \<not> no_discover a)"
proof (cases "no_discover a")
  case True
  then show ?thesis by (simp add: main_no_discover)
next
  case nd: False
  show ?thesis
  proof (cases "miniconf_discover w (broker a) (prefix a)")
    case (Inl x)
    with nd show ?thesis by (simp add: main_discover_raises)
  next
    case (Inr ds)
    consider "ds = []" | dev where "ds = [dev]" | "1 < length ds"
      by (cases ds; cases "tl ds") auto
    then show ?thesis
    proof cases
      case 1
      with nd Inr show ?thesis by (simp add: main_discover_none)
    next
      case 2
      with nd Inr show ?thesis by (simp add: main_discover_one)
    next
      case 3
      with nd Inr show ?thesis by (simp add: main_discover_many)
    qed
  qed
qed

lemma main_writes: "writes (fst (main w a)) = [] \<or> (\<exists>pre. writes (fst (main w a)) = writes (fst (configure w a pre)))"
  using main_shape [of w a] by (auto)

lemma configure_starts: "\<exists>t. fst (configure w a pre) = CreateCall pre (broker a) # t"
  by (auto simp: configure_def run_defs split: sum.splits)

lemma configure_acked:
  assumes "snd (configure w a pre) = Inr ()"
  shows "\<exists>t h path val. fst (configure w a pre) = t @ [SetCall h path val]
           \<and> interface_set w h path val = Inr ()"
  using assms by (auto simp: configure_def run_defs split: sum.splits)


subsection \<open>Two runs on the bench\<close>

lemma example_run:
  "configure (bench ds) example_args pre =
     ([CreateCall pre ''mqtt'', ConvertCall 0, ConvertCall 0, ConvertCall (- 10), ConvertCall 10,
       ConvertCall 5, SetCall (pre, ''mqtt'') ''/pid_ch/0'' example_value],
      Inr ())"
  by (simp add: configure_def run_defs bench_def example_args_def example_value_def
      to_machine_units_def str_int_0 round_def)

lemma example_run_rejected:
  "configure (bench_rejecting ds) example_args pre =
     ([CreateCall pre ''mqtt'', ConvertCall 0, ConvertCall 0, ConvertCall (- 10), ConvertCall 10,
       ConvertCall 5, SetCall (pre, ''mqtt'') ''/pid_ch/0'' example_value],
      Inl (Foreign ''rejected''))"
  by (simp add: configure_def run_defs bench_rejecting_def bench_def example_args_def
      example_value_def to_machine_units_def str_int_0 round_def)

lemma odd_run:
  "configure (bench ds) odd_args pre =
     ([CreateCall pre ''mqtt'', ConvertCall 1000, ConvertCall 0, ConvertCall 10, ConvertCall (- 10),
       ConvertCall 5, SetCall (pre, ''mqtt'') ''/pid_ch/1'' odd_value],
      Inr ())"
  by (simp add: configure_def run_defs bench_def odd_args_def example_args_def odd_value_def
      to_machine_units_def str_int_1 round_def)

lemma example_main:
  "main (bench [dev]) example_args =
     ([DiscoverCall ''mqtt'' ''dt/sinara/dual-pid/+'', CreateCall dev ''mqtt'', ConvertCall 0,
       ConvertCall 0, ConvertCall (- 10), ConvertCall 10, ConvertCall 5,
       SetCall (dev, ''mqtt'') ''/pid_ch/0'' example_value],
      Inr ())"
proof -
  have "\<not> no_discover example_args" by (simp add: example_args_def)
  moreover have "miniconf_discover (bench [dev]) (broker example_args) (prefix example_args) = Inr [dev]"
    by (simp add: bench_def)
  ultimately have "main (bench [dev]) example_args =
      (DiscoverCall (broker example_args) (prefix example_args)
         # fst (configure (bench [dev]) example_args dev),
       snd (configure (bench [dev]) example_args dev))"
    by (rule main_discover_one)
  then show ?thesis by (simp add: example_run) (simp add: example_args_def)
qed

lemma example_main_rejected:
  "main (bench_rejecting [dev]) example_args =
     ([DiscoverCall ''mqtt'' ''dt/sinara/dual-pid/+'', CreateCall dev ''mqtt'', ConvertCall 0,
       ConvertCall 0, ConvertCall (- 10), ConvertCall 10, ConvertCall 5,
       SetCall (dev, ''mqtt'') ''/pid_ch/0'' example_value],
      Inl (Foreign ''rejected''))"
proof -
  have "\<not> no_discover example_args" by (simp add: example_args_def)
  moreover have "miniconf_discover (bench_rejecting [dev]) (broker example_args) (prefix example_args)
                   = Inr [dev]"
    by (simp add: bench_rejecting_def bench_def)
  ultimately have "main (bench_rejecting [dev]) example_args =
      (DiscoverCall (broker example_args) (prefix example_args)
         # fst (configure (bench_rejecting [dev]) example_args dev),
       snd (configure (bench_rejecting [dev]) example_args dev))"
    by (rule main_discover_one)
  then show ?thesis by (simp add: example_run_rejected) (simp add: example_args_def)
qed

section \<open>The claims\<close>

text \<open>
  C2, as the specification states it: the write targets exactly the path \<^verbatim>\<open>pid_ch/{channel}\<close>.
  The script writes to \<^verbatim>\<open>/pid_ch/{channel}\<close>, with a leading slash: on channel 0 the one path
  written is \<^verbatim>\<open>/pid_ch/0\<close>, and \<^verbatim>\<open>pid_ch/0\<close> is not written.
\<close>

theorem configure_path_counterexample:
  "channel example_args = 0
   \<and> write_paths (fst (configure (bench []) example_args ''dt/sinara/dual-pid/00'')) = [''/pid_ch/0'']
   \<and> ''pid_ch/0'' \<notin> set (write_paths (fst (configure (bench []) example_args ''dt/sinara/dual-pid/00'')))"
  by (simp add: example_run write_paths_def) (simp add: example_args_def)

text \<open>
  C2, amended. For a channel selector in \<open>{0, 1}\<close>, every write of \<^verbatim>\<open>configure\<close> targets the
  path \<^verbatim>\<open>/pid_ch/0\<close> or \<^verbatim>\<open>/pid_ch/1\<close> according to the channel, and the keys of its value are
  \<open>p\<close>, \<open>i\<close>, \<open>d\<close>, \<open>x_offset\<close>, \<open>y_offset\<close>, \<open>y_min\<close>, \<open>y_max\<close>, \<open>i_limit\<close>: these eight, each once.
\<close>

theorem configure_path_and_fields:
  assumes "channel a \<in> {0, 1}"
    and "(h, path, val) \<in> set (writes (fst (configure w a pre)))"
  shows "path = (if channel a = 0 then ''/pid_ch/0'' else ''/pid_ch/1'')
         \<and> map fst val = [''p'', ''i'', ''d'', ''x_offset'', ''y_offset'', ''y_min'', ''y_max'', ''i_limit'']
         \<and> distinct (map fst val)"
proof -
  from configure_write [OF assms(2)] obtain xo yo ymin ymax il where
    pa: "path = ''/pid_ch/'' @ str_int (channel a)"
    and va: "val = [(''p'', Arg (p a)), (''i'', Arg (i a)), (''d'', Arg (d a)),
                  (''x_offset'', Units xo), (''y_offset'', Units yo), (''y_min'', Units ymin),
                  (''y_max'', Units ymax), (''i_limit'', Units il)]"
    by blast
  from assms(1) pa have "path = (if channel a = 0 then ''/pid_ch/0'' else ''/pid_ch/1'')"
    by (auto simp: str_int_0 str_int_1)
  moreover from va have "map fst val = [''p'', ''i'', ''d'', ''x_offset'', ''y_offset'', ''y_min'', ''y_max'', ''i_limit'']"
    by simp
  moreover from va have "distinct (map fst val)" by simp
  ultimately show ?thesis by blast
qed

theorem configure_path_and_fields_witness:
  "channel odd_args \<in> {0, 1}
   \<and> ((''dt/sinara/dual-pid/00'', ''mqtt''), ''/pid_ch/1'', odd_value)
        \<in> set (writes (fst (configure (bench []) odd_args ''dt/sinara/dual-pid/00'')))
   \<and> map fst odd_value = [''p'', ''i'', ''d'', ''x_offset'', ''y_offset'', ''y_min'', ''y_max'', ''i_limit'']"
proof -
  have c: "channel odd_args \<in> {0, 1}" by (simp add: odd_args_def)
  have h: "((''dt/sinara/dual-pid/00'', ''mqtt''), ''/pid_ch/1'', odd_value)
        \<in> set (writes (fst (configure (bench []) odd_args ''dt/sinara/dual-pid/00'')))"
    by (simp add: odd_run)
  from configure_path_and_fields [OF c h] c h show ?thesis by blast
qed

text \<open>
  C3. When discovery is run and returns no prefix, the script raises the \<^verbatim>\<open>ValueError\<close>
  "No prefixes discovered." (the failure the specification calls NoDeviceFound), which is not
  the error raised for several prefixes; the discovery query is the only call made, so no
  interface is opened and nothing is written.
\<close>

theorem no_device_found:
  assumes "\<not> no_discover a"
    and "miniconf_discover w (broker a) (prefix a) = Inr []"
  shows "main w a =
           ([DiscoverCall (broker a) (prefix a)], Inl (ValueError [Lit ''No prefixes discovered.'']))
         \<and> writes (fst (main w a)) = []
         \<and> snd (main w a) \<noteq>
             Inl (ValueError [Lit ''Multiple prefixes discovered ('', Fmt ds,
                              Lit '').Please specify a more specific --prefix''])"
  using main_discover_none [OF assms] by simp

theorem no_device_found_witness:
  "\<not> no_discover example_args
   \<and> miniconf_discover (bench []) (broker example_args) (prefix example_args) = Inr []
   \<and> main (bench []) example_args =
       ([DiscoverCall ''mqtt'' ''dt/sinara/dual-pid/+''],
        Inl (ValueError [Lit ''No prefixes discovered.'']))
   \<and> writes (fst (main (bench []) example_args)) = []"
proof -
  have n: "\<not> no_discover example_args" by (simp add: example_args_def)
  have e: "miniconf_discover (bench []) (broker example_args) (prefix example_args) = Inr []"
    by (simp add: bench_def)
  from no_device_found [OF n e] n e show ?thesis by (simp add: example_args_def)
qed

text \<open>
  C4. When discovery is run and returns two or more distinct prefixes, the script raises the
  \<^verbatim>\<open>ValueError\<close> "Multiple prefixes discovered (...)" (the failure the specification calls
  AmbiguousDeviceMatch); the formatted field of its message is the whole list that discovery
  returned, so the prefixes it carries are, as a set, all those matched. The discovery query
  is the only call made: nothing is written.
\<close>

theorem ambiguous_device_match:
  assumes "\<not> no_discover a"
    and "miniconf_discover w (broker a) (prefix a) = Inr ds"
    and "distinct ds" and "2 \<le> length ds"
  shows "\<exists>e. main w a = ([DiscoverCall (broker a) (prefix a)], Inl e)
           \<and> e = ValueError [Lit ''Multiple prefixes discovered ('', Fmt ds,
                              Lit '').Please specify a more specific --prefix'']
           \<and> set (carried e) = set ds
           \<and> e \<noteq> ValueError [Lit ''No prefixes discovered.'']
           \<and> writes (fst (main w a)) = []"
proof -
  from assms(4) have "1 < length ds" by simp
  from main_discover_many [OF assms(1,2) this] show ?thesis by simp
qed

theorem ambiguous_device_match_witness:
  "\<not> no_discover example_args
   \<and> miniconf_discover (bench [''dt/sinara/dual-pid/00'', ''dt/sinara/dual-pid/01''])
        (broker example_args) (prefix example_args)
       = Inr [''dt/sinara/dual-pid/00'', ''dt/sinara/dual-pid/01'']
   \<and> distinct [''dt/sinara/dual-pid/00'', ''dt/sinara/dual-pid/01'']
   \<and> 2 \<le> length [''dt/sinara/dual-pid/00'', ''dt/sinara/dual-pid/01'']
   \<and> main (bench [''dt/sinara/dual-pid/00'', ''dt/sinara/dual-pid/01'']) example_args =
       ([DiscoverCall ''mqtt'' ''dt/sinara/dual-pid/+''],
        Inl (ValueError [Lit ''Multiple prefixes discovered ('',
                         Fmt [''dt/sinara/dual-pid/00'', ''dt/sinara/dual-pid/01''],
                         Lit '').Please specify a more specific --prefix'']))"
proof -
  have n: "\<not> no_discover example_args" by (simp add: example_args_def)
  have e: "miniconf_discover (bench [''dt/sinara/dual-pid/00'', ''dt/sinara/dual-pid/01''])
        (broker example_args) (prefix example_args)
       = Inr [''dt/sinara/dual-pid/00'', ''dt/sinara/dual-pid/01'']"
    by (simp add: bench_def)
  have di: "distinct [''dt/sinara/dual-pid/00'', ''dt/sinara/dual-pid/01'']" by simp
  have le: "2 \<le> length [''dt/sinara/dual-pid/00'', ''dt/sinara/dual-pid/01'']" by simp
  from ambiguous_device_match [OF n e di le] n e di le show ?thesis
    by (simp add: example_args_def)
qed

text \<open>
  C6. With \<^verbatim>\<open>--no-discover\<close> the run of the script is the run of \<^verbatim>\<open>configure\<close> on the
  caller's prefix as it is: its first call opens the interface on that very string, and no
  call to \<^verbatim>\<open>miniconf.discover\<close> occurs anywhere in the trace.
\<close>

theorem no_discover_uses_prefix_unchanged:
  assumes "no_discover a"
  shows "main w a = configure w a (prefix a)
         \<and> (\<exists>t. fst (main w a) = CreateCall (prefix a) (broker a) # t)
         \<and> discoveries (fst (main w a)) = []"
  using main_no_discover [OF assms, of w] configure_starts [of w a "prefix a"]
    configure_no_discovery [of w a "prefix a"]
  by simp

theorem no_discover_uses_prefix_unchanged_witness:
  "no_discover odd_args
   \<and> main (bench []) odd_args = configure (bench []) odd_args ''dt/sinara/dual-pid/00''
   \<and> fst (main (bench []) odd_args) =
       [CreateCall ''dt/sinara/dual-pid/00'' ''mqtt'', ConvertCall 1000, ConvertCall 0,
        ConvertCall 10, ConvertCall (- 10), ConvertCall 5,
        SetCall (''dt/sinara/dual-pid/00'', ''mqtt'') ''/pid_ch/1'' odd_value]
   \<and> discoveries (fst (main (bench []) odd_args)) = []"
proof -
  have n: "no_discover odd_args" by (simp add: odd_args_def)
  have pr: "prefix odd_args = ''dt/sinara/dual-pid/00''" by (simp add: odd_args_def)
  from no_discover_uses_prefix_unchanged [OF n, of "bench []"] n pr show ?thesis
    by (simp add: odd_run)
qed

text \<open>
  C10. Changing \<open>sample_period\<close> and nothing else leaves the whole run as it was: the same
  calls with the same arguments, so the same path and the same eight values, and the same
  outcome.
\<close>

theorem sample_period_unused:
  "main w (a\<lparr>sample_period := s\<rparr>) = main w a"
  by (simp add: main_def configure_def)

theorem sample_period_unused_witness:
  "main (bench [''dt/sinara/dual-pid/00'']) (example_args\<lparr>sample_period := 1\<rparr>) =
     ([DiscoverCall ''mqtt'' ''dt/sinara/dual-pid/+'', CreateCall ''dt/sinara/dual-pid/00'' ''mqtt'',
       ConvertCall 0, ConvertCall 0, ConvertCall (- 10), ConvertCall 10, ConvertCall 5,
       SetCall (''dt/sinara/dual-pid/00'', ''mqtt'') ''/pid_ch/0'' example_value],
      Inr ())"
  using sample_period_unused [where w = "bench [''dt/sinara/dual-pid/00'']" and a = example_args and s = 1]
  by (simp add: example_main)

text \<open>
  C7. A run of the script issues at most one write, whatever fails (a rejected write is not
  tried again); a write that is issued targets the path of the given channel, and the path of
  any other channel is never written.
\<close>

theorem at_most_one_write_on_own_channel:
  "length (writes (fst (main w a))) \<le> 1
   \<and> set (write_paths (fst (main w a))) \<subseteq> {''/pid_ch/'' @ str_int (channel a)}
   \<and> (c \<noteq> channel a \<longrightarrow> ''/pid_ch/'' @ str_int c \<notin> set (write_paths (fst (main w a))))"
proof -
  have p: "set (write_paths (fst (configure w a pre))) \<subseteq> {''/pid_ch/'' @ str_int (channel a)}" for pre
    using configure_write [of _ _ _ w a pre] by (fastforce simp: write_paths_def)
  from main_writes [of w a] have l: "length (writes (fst (main w a))) \<le> 1"
    using configure_writes_le by (metis list.size(3) zero_le)
  from main_writes [of w a] have s: "set (write_paths (fst (main w a))) \<subseteq> {''/pid_ch/'' @ str_int (channel a)}"
  proof
    assume "writes (fst (main w a)) = []"
    then show ?thesis by (simp add: write_paths_def)
  next
    assume "\<exists>pre. writes (fst (main w a)) = writes (fst (configure w a pre))"
    then obtain pre where "writes (fst (main w a)) = writes (fst (configure w a pre))" ..
    then have "write_paths (fst (main w a)) = write_paths (fst (configure w a pre))"
      by (simp add: write_paths_def)
    with p [of pre] show ?thesis by simp
  qed
  have "c \<noteq> channel a \<longrightarrow> ''/pid_ch/'' @ str_int c \<notin> set (write_paths (fst (main w a)))"
  proof
    assume ne: "c \<noteq> channel a"
    show "''/pid_ch/'' @ str_int c \<notin> set (write_paths (fst (main w a)))"
    proof
      assume "''/pid_ch/'' @ str_int c \<in> set (write_paths (fst (main w a)))"
      with s have "''/pid_ch/'' @ str_int c = ''/pid_ch/'' @ str_int (channel a)" by blast
      then have "str_int c = str_int (channel a)" by simp
      with ne show False using str_int_inj by blast
    qed
  qed
  with l s show ?thesis by blast
qed

theorem at_most_one_write_on_own_channel_witness:
  "1 \<noteq> channel example_args
   \<and> length (writes (fst (main (bench_rejecting [''dt/sinara/dual-pid/00'']) example_args))) = 1
   \<and> snd (main (bench_rejecting [''dt/sinara/dual-pid/00'']) example_args) = Inl (Foreign ''rejected'')
   \<and> write_paths (fst (main (bench_rejecting [''dt/sinara/dual-pid/00'']) example_args)) = [''/pid_ch/0'']
   \<and> ''/pid_ch/1'' \<notin> set (write_paths (fst (main (bench_rejecting [''dt/sinara/dual-pid/00'']) example_args)))"
proof -
  have n: "1 \<noteq> channel example_args" by (simp add: example_args_def)
  have r: "main (bench_rejecting [''dt/sinara/dual-pid/00'']) example_args =
     ([DiscoverCall ''mqtt'' ''dt/sinara/dual-pid/+'', CreateCall ''dt/sinara/dual-pid/00'' ''mqtt'',
       ConvertCall 0, ConvertCall 0, ConvertCall (- 10), ConvertCall 10, ConvertCall 5,
       SetCall (''dt/sinara/dual-pid/00'', ''mqtt'') ''/pid_ch/0'' example_value],
      Inl (Foreign ''rejected''))"
    by (rule example_main_rejected)
  from at_most_one_write_on_own_channel [of "bench_rejecting [''dt/sinara/dual-pid/00'']" example_args 1] n
  have "''/pid_ch/1'' \<notin> set (write_paths (fst (main (bench_rejecting [''dt/sinara/dual-pid/00'']) example_args)))"
    by (simp add: str_int_1)
  with n r show ?thesis by (simp add: write_paths_def)
qed

text \<open>
  C5, as the specification states it: on channel 0 with P = 1.5, I = 0.2, D = 0 and an
  integrator limit of 5 V, full scale 10 V and machine range \<open>2 ^ 15\<close>, the one write goes to
  \<^verbatim>\<open>pid_ch/0\<close> and its \<open>i_limit\<close> is \<open>round (0.2 * 5.0 / 10.0 * 2 ^ 15)\<close>, that is 3277. With the
  conversion of the specification the script writes once, to \<^verbatim>\<open>/pid_ch/0\<close>, and \<open>i_limit\<close> is
  the converted limit alone, 16384: the gain I does not enter it.
\<close>

theorem example_i_limit_counterexample:
  "channel example_args = 0 \<and> p example_args = 3 / 2 \<and> i example_args = 1 / 5
   \<and> d example_args = 0 \<and> i_limit example_args = 5
   \<and> write_paths (fst (configure (bench []) example_args ''dt/sinara/dual-pid/00'')) = [''/pid_ch/0'']
   \<and> write_field ''i_limit'' (fst (configure (bench []) example_args ''dt/sinara/dual-pid/00''))
       = [Some (Units 16384)]
   \<and> round (1 / 5 * 5 / 10 * 2 ^ 15 :: real) = 3277
   \<and> to_machine_units round 10 (2 ^ 15) 5 = 16384"
  by (simp add: example_run write_paths_def write_field_def example_value_def
      to_machine_units_def round_def)
    (simp add: example_args_def)

text \<open>
  C5, amended. With the conversion of the specification (full scale 10 V, machine range
  \<open>2 ^ 15\<close>, any rounding rule that leaves integers alone), channel 0, P = 1.5, I = 0.2, D = 0
  and an integrator limit of 5 V, a run of \<^verbatim>\<open>configure\<close> whose interface opens issues exactly
  one write, to \<^verbatim>\<open>/pid_ch/0\<close>; its \<open>i_limit\<close> is \<open>5 / 10 * 2 ^ 15 = 16384\<close>, each other
  converted field is its voltage times \<open>2 ^ 15 / 10\<close>, rounded, and \<open>p\<close>, \<open>i\<close>, \<open>d\<close> are the
  values given.
\<close>

theorem example_write:
  assumes "channel a = 0" and "p a = 3 / 2" and "i a = 1 / 5" and "d a = 0" and "i_limit a = 5"
    and "voltage_to_machine_units w = (\<lambda>v. Inr (to_machine_units rnd 10 (2 ^ 15) v))"
    and "\<And>k. rnd (of_int k) = k"
    and "miniconf_create w pre (broker a) = Inr h"
  shows "writes (fst (configure w a pre)) =
           [(h, ''/pid_ch/0'',
             [(''p'', Arg (3 / 2)), (''i'', Arg (1 / 5)), (''d'', Arg 0),
              (''x_offset'', Units (rnd (x_offset a * (2 ^ 15 / 10)))),
              (''y_offset'', Units (rnd (y_offset a * (2 ^ 15 / 10)))),
              (''y_min'', Units (rnd (y_min a * (2 ^ 15 / 10)))),
              (''y_max'', Units (rnd (y_max a * (2 ^ 15 / 10)))),
              (''i_limit'', Units 16384)])]"
proof -
  have "rnd (of_int 16384) = 16384" by (rule assms(7))
  then have il: "rnd (5 * (2 ^ 15 / 10)) = 16384" by simp
  have v: "voltage_to_machine_units w v = Inr (rnd (v * (2 ^ 15 / 10)))" for v
    by (simp add: assms(6) to_machine_units_def)
  have "configure w a pre =
          ([CreateCall pre (broker a), ConvertCall (x_offset a), ConvertCall (y_offset a),
            ConvertCall (y_min a), ConvertCall (y_max a), ConvertCall (i_limit a),
            SetCall h (''/pid_ch/'' @ str_int (channel a))
              [(''p'', Arg (p a)), (''i'', Arg (i a)), (''d'', Arg (d a)),
               (''x_offset'', Units (rnd (x_offset a * (2 ^ 15 / 10)))),
               (''y_offset'', Units (rnd (y_offset a * (2 ^ 15 / 10)))),
               (''y_min'', Units (rnd (y_min a * (2 ^ 15 / 10)))),
               (''y_max'', Units (rnd (y_max a * (2 ^ 15 / 10)))),
               (''i_limit'', Units (rnd (i_limit a * (2 ^ 15 / 10))))]],
           case interface_set w h (''/pid_ch/'' @ str_int (channel a))
              [(''p'', Arg (p a)), (''i'', Arg (i a)), (''d'', Arg (d a)),
               (''x_offset'', Units (rnd (x_offset a * (2 ^ 15 / 10)))),
               (''y_offset'', Units (rnd (y_offset a * (2 ^ 15 / 10)))),
               (''y_min'', Units (rnd (y_min a * (2 ^ 15 / 10)))),
               (''y_max'', Units (rnd (y_max a * (2 ^ 15 / 10)))),
               (''i_limit'', Units (rnd (i_limit a * (2 ^ 15 / 10))))]
           of Inl x \<Rightarrow> Inl (Foreign x) | Inr u \<Rightarrow> Inr u)"
    by (rule configure_through [OF assms(8) v v v v v refl refl])
  then show ?thesis
    using il by (simp add: assms(1-5) str_int_0)
qed

theorem example_write_witness:
  "channel example_args = 0 \<and> p example_args = 3 / 2 \<and> i example_args = 1 / 5
   \<and> d example_args = 0 \<and> i_limit example_args = 5
   \<and> voltage_to_machine_units (bench []) = (\<lambda>v. Inr (to_machine_units round 10 (2 ^ 15) v))
   \<and> (\<forall>k. round (of_int k :: real) = k)
   \<and> miniconf_create (bench []) ''dt/sinara/dual-pid/00'' (broker example_args)
       = Inr (''dt/sinara/dual-pid/00'', ''mqtt'')
   \<and> writes (fst (configure (bench []) example_args ''dt/sinara/dual-pid/00'')) =
       [((''dt/sinara/dual-pid/00'', ''mqtt''), ''/pid_ch/0'',
         [(''p'', Arg (3 / 2)), (''i'', Arg (1 / 5)), (''d'', Arg 0), (''x_offset'', Units 0),
          (''y_offset'', Units 0), (''y_min'', Units (- 32768)), (''y_max'', Units 32768),
          (''i_limit'', Units 16384)])]"
proof -
  have a: "channel example_args = 0" "p example_args = 3 / 2" "i example_args = 1 / 5"
    "d example_args = 0" "i_limit example_args = 5"
    by (simp_all add: example_args_def)
  have v: "voltage_to_machine_units (bench []) = (\<lambda>v. Inr (to_machine_units round 10 (2 ^ 15) v))"
    by (simp add: bench_def)
  have r: "round (of_int k :: real) = k" for k by simp
  have c: "miniconf_create (bench []) ''dt/sinara/dual-pid/00'' (broker example_args)
       = Inr (''dt/sinara/dual-pid/00'', ''mqtt'')"
    by (simp add: bench_def example_args_def)
  from example_write [OF a v r c]
  have "writes (fst (configure (bench []) example_args ''dt/sinara/dual-pid/00'')) =
       [((''dt/sinara/dual-pid/00'', ''mqtt''), ''/pid_ch/0'',
         [(''p'', Arg (3 / 2)), (''i'', Arg (1 / 5)), (''d'', Arg 0), (''x_offset'', Units 0),
          (''y_offset'', Units 0), (''y_min'', Units (- 32768)), (''y_max'', Units 32768),
          (''i_limit'', Units 16384)])]"
    by (simp add: example_args_def round_def)
  with a v r c show ?thesis by blast
qed

text \<open>
  C9, as the specification states it: conversion completes before the session is opened. In
  the order Resolving, Converting, SessionOpen, Writing the calls of a run on the bench are
  out of order: the interface is opened (step 2) before the five conversions (step 1).
\<close>

theorem spec_order_counterexample:
  "fst (main (bench [''dt/sinara/dual-pid/00'']) example_args) =
     [DiscoverCall ''mqtt'' ''dt/sinara/dual-pid/+'', CreateCall ''dt/sinara/dual-pid/00'' ''mqtt'',
      ConvertCall 0, ConvertCall 0, ConvertCall (- 10), ConvertCall 10, ConvertCall 5,
      SetCall (''dt/sinara/dual-pid/00'', ''mqtt'') ''/pid_ch/0'' example_value]
   \<and> map step_of_spec (fst (main (bench [''dt/sinara/dual-pid/00'']) example_args))
       = [0, 2, 1, 1, 1, 1, 1, 3]
   \<and> \<not> sorted (map step_of_spec (fst (main (bench [''dt/sinara/dual-pid/00'']) example_args)))"
  by (simp add: example_main)

text \<open>
  The calls of every run of \<^verbatim>\<open>configure\<close> are an initial part of one sequence: opening the
  interface, the five conversions in the order of the dictionary, the write. A run that ends
  without an exception made all of them, and its write was acknowledged.
\<close>

lemma configure_calls:
  "\<exists>h val rest.
     [CreateCall pre (broker a), ConvertCall (x_offset a), ConvertCall (y_offset a),
      ConvertCall (y_min a), ConvertCall (y_max a), ConvertCall (i_limit a),
      SetCall h (''/pid_ch/'' @ str_int (channel a)) val]
       = fst (configure w a pre) @ rest
     \<and> (snd (configure w a pre) = Inr ()
        \<longrightarrow> rest = [] \<and> interface_set w h (''/pid_ch/'' @ str_int (channel a)) val = Inr ())"
  by (auto simp: configure_def run_defs split: sum.splits)

text \<open>
  C1. Every run of \<^verbatim>\<open>configure\<close> in which the interface opens and the helper returns a
  result for each voltage calls \<^verbatim>\<open>voltage_to_machine_units\<close> five times, once on each of
  \<open>x_offset\<close>, \<open>y_offset\<close>, \<open>y_min\<close>, \<open>y_max\<close> and \<open>i_limit\<close>, and then writes the five results under
  those names together with the gains \<open>p\<close>, \<open>i\<close>, \<open>d\<close> exactly as the caller gave them.
  Conversely, a write that \<^verbatim>\<open>configure\<close> issues is always the last call of such a run: it
  comes after the five conversions and holds their results and the unchanged gains.
\<close>

theorem configure_converts_voltages_keeps_gains:
  "(miniconf_create w pre (broker a) = Inr h0
    \<and> voltage_to_machine_units w (x_offset a) = Inr xo0
    \<and> voltage_to_machine_units w (y_offset a) = Inr yo0
    \<and> voltage_to_machine_units w (y_min a) = Inr ymin0
    \<and> voltage_to_machine_units w (y_max a) = Inr ymax0
    \<and> voltage_to_machine_units w (i_limit a) = Inr il0
    \<longrightarrow> fst (configure w a pre) =
          [CreateCall pre (broker a), ConvertCall (x_offset a), ConvertCall (y_offset a),
           ConvertCall (y_min a), ConvertCall (y_max a), ConvertCall (i_limit a),
           SetCall h0 (''/pid_ch/'' @ str_int (channel a))
             [(''p'', Arg (p a)), (''i'', Arg (i a)), (''d'', Arg (d a)),
              (''x_offset'', Units xo0), (''y_offset'', Units yo0), (''y_min'', Units ymin0),
              (''y_max'', Units ymax0), (''i_limit'', Units il0)]])
   \<and> ((h, path, val) \<in> set (writes (fst (configure w a pre)))
      \<longrightarrow> (\<exists>xo yo ymin ymax il.
            voltage_to_machine_units w (x_offset a) = Inr xo \<and>
            voltage_to_machine_units w (y_offset a) = Inr yo \<and>
            voltage_to_machine_units w (y_min a) = Inr ymin \<and>
            voltage_to_machine_units w (y_max a) = Inr ymax \<and>
            voltage_to_machine_units w (i_limit a) = Inr il \<and>
            val = [(''p'', Arg (p a)), (''i'', Arg (i a)), (''d'', Arg (d a)),
                   (''x_offset'', Units xo), (''y_offset'', Units yo), (''y_min'', Units ymin),
                   (''y_max'', Units ymax), (''i_limit'', Units il)] \<and>
            fst (configure w a pre) =
              [CreateCall pre (broker a), ConvertCall (x_offset a), ConvertCall (y_offset a),
               ConvertCall (y_min a), ConvertCall (y_max a), ConvertCall (i_limit a),
               SetCall h path val]))"
proof (intro conjI impI)
  assume "miniconf_create w pre (broker a) = Inr h0
    \<and> voltage_to_machine_units w (x_offset a) = Inr xo0
    \<and> voltage_to_machine_units w (y_offset a) = Inr yo0
    \<and> voltage_to_machine_units w (y_min a) = Inr ymin0
    \<and> voltage_to_machine_units w (y_max a) = Inr ymax0
    \<and> voltage_to_machine_units w (i_limit a) = Inr il0"
  then show "fst (configure w a pre) =
          [CreateCall pre (broker a), ConvertCall (x_offset a), ConvertCall (y_offset a),
           ConvertCall (y_min a), ConvertCall (y_max a), ConvertCall (i_limit a),
           SetCall h0 (''/pid_ch/'' @ str_int (channel a))
             [(''p'', Arg (p a)), (''i'', Arg (i a)), (''d'', Arg (d a)),
              (''x_offset'', Units xo0), (''y_offset'', Units yo0), (''y_min'', Units ymin0),
              (''y_max'', Units ymax0), (''i_limit'', Units il0)]]"
    by (simp add: configure_through)
next
  assume "(h, path, val) \<in> set (writes (fst (configure w a pre)))"
  from configure_write [OF this] obtain xo yo ymin ymax il where
    c: "miniconf_create w pre (broker a) = Inr h"
    and v: "voltage_to_machine_units w (x_offset a) = Inr xo"
      "voltage_to_machine_units w (y_offset a) = Inr yo"
      "voltage_to_machine_units w (y_min a) = Inr ymin"
      "voltage_to_machine_units w (y_max a) = Inr ymax"
      "voltage_to_machine_units w (i_limit a) = Inr il"
    and pa: "path = ''/pid_ch/'' @ str_int (channel a)"
    and va: "val = [(''p'', Arg (p a)), (''i'', Arg (i a)), (''d'', Arg (d a)),
                  (''x_offset'', Units xo), (''y_offset'', Units yo), (''y_min'', Units ymin),
                  (''y_max'', Units ymax), (''i_limit'', Units il)]"
    by blast
  from configure_through [OF c v va pa]
  have "fst (configure w a pre) =
             [CreateCall pre (broker a), ConvertCall (x_offset a), ConvertCall (y_offset a),
              ConvertCall (y_min a), ConvertCall (y_max a), ConvertCall (i_limit a),
              SetCall h path val]"
    by simp
  with v va show "\<exists>xo yo ymin ymax il.
            voltage_to_machine_units w (x_offset a) = Inr xo \<and>
            voltage_to_machine_units w (y_offset a) = Inr yo \<and>
            voltage_to_machine_units w (y_min a) = Inr ymin \<and>
            voltage_to_machine_units w (y_max a) = Inr ymax \<and>
            voltage_to_machine_units w (i_limit a) = Inr il \<and>
            val = [(''p'', Arg (p a)), (''i'', Arg (i a)), (''d'', Arg (d a)),
                   (''x_offset'', Units xo), (''y_offset'', Units yo), (''y_min'', Units ymin),
                   (''y_max'', Units ymax), (''i_limit'', Units il)] \<and>
            fst (configure w a pre) =
              [CreateCall pre (broker a), ConvertCall (x_offset a), ConvertCall (y_offset a),
               ConvertCall (y_min a), ConvertCall (y_max a), ConvertCall (i_limit a),
               SetCall h path val]"
    by blast
qed

text \<open>
  On the bench, channel 1 with the arguments \<open>odd_args\<close>: the interface opens and the helper
  returns for each voltage, so the five conversions and the write follow; and that write is
  in the trace.
\<close>

theorem configure_converts_voltages_keeps_gains_witness:
  "miniconf_create (bench []) ''dt/sinara/dual-pid/00'' (broker odd_args)
     = Inr (''dt/sinara/dual-pid/00'', ''mqtt'')
   \<and> voltage_to_machine_units (bench []) (x_offset odd_args) = Inr 3276800
   \<and> voltage_to_machine_units (bench []) (y_offset odd_args) = Inr 0
   \<and> voltage_to_machine_units (bench []) (y_min odd_args) = Inr 32768
   \<and> voltage_to_machine_units (bench []) (y_max odd_args) = Inr (- 32768)
   \<and> voltage_to_machine_units (bench []) (i_limit odd_args) = Inr 16384
   \<and> fst (configure (bench []) odd_args ''dt/sinara/dual-pid/00'') =
       [CreateCall ''dt/sinara/dual-pid/00'' ''mqtt'', ConvertCall 1000, ConvertCall 0,
        ConvertCall 10, ConvertCall (- 10), ConvertCall 5,
        SetCall (''dt/sinara/dual-pid/00'', ''mqtt'') ''/pid_ch/1''
          [(''p'', Arg (3 / 2)), (''i'', Arg (1 / 5)), (''d'', Arg 0),
           (''x_offset'', Units 3276800), (''y_offset'', Units 0), (''y_min'', Units 32768),
           (''y_max'', Units (- 32768)), (''i_limit'', Units 16384)]]
   \<and> ((''dt/sinara/dual-pid/00'', ''mqtt''), ''/pid_ch/1'', odd_value)
        \<in> set (writes (fst (configure (bench []) odd_args ''dt/sinara/dual-pid/00'')))
   \<and> odd_value =
       [(''p'', Arg (p odd_args)), (''i'', Arg (i odd_args)), (''d'', Arg (d odd_args)),
        (''x_offset'', Units 3276800), (''y_offset'', Units 0), (''y_min'', Units 32768),
        (''y_max'', Units (- 32768)), (''i_limit'', Units 16384)]"
proof -
  have h: "miniconf_create (bench []) ''dt/sinara/dual-pid/00'' (broker odd_args)
             = Inr (''dt/sinara/dual-pid/00'', ''mqtt'')
    \<and> voltage_to_machine_units (bench []) (x_offset odd_args) = Inr 3276800
    \<and> voltage_to_machine_units (bench []) (y_offset odd_args) = Inr 0
    \<and> voltage_to_machine_units (bench []) (y_min odd_args) = Inr 32768
    \<and> voltage_to_machine_units (bench []) (y_max odd_args) = Inr (- 32768)
    \<and> voltage_to_machine_units (bench []) (i_limit odd_args) = Inr 16384"
    by (simp add: bench_def odd_args_def example_args_def to_machine_units_def round_def)
  note t = configure_converts_voltages_keeps_gains
      [of "bench []" "''dt/sinara/dual-pid/00''" odd_args
        "(''dt/sinara/dual-pid/00'', ''mqtt'')" 3276800 0 32768 "- 32768" 16384
        "(''dt/sinara/dual-pid/00'', ''mqtt'')" "''/pid_ch/1''" odd_value]
  from t h have "fst (configure (bench []) odd_args ''dt/sinara/dual-pid/00'') =
       [CreateCall ''dt/sinara/dual-pid/00'' (broker odd_args), ConvertCall (x_offset odd_args),
        ConvertCall (y_offset odd_args), ConvertCall (y_min odd_args), ConvertCall (y_max odd_args),
        ConvertCall (i_limit odd_args),
        SetCall (''dt/sinara/dual-pid/00'', ''mqtt'') (''/pid_ch/'' @ str_int (channel odd_args))
          [(''p'', Arg (p odd_args)), (''i'', Arg (i odd_args)), (''d'', Arg (d odd_args)),
           (''x_offset'', Units 3276800), (''y_offset'', Units 0), (''y_min'', Units 32768),
           (''y_max'', Units (- 32768)), (''i_limit'', Units 16384)]]"
    by blast
  then have tr: "fst (configure (bench []) odd_args ''dt/sinara/dual-pid/00'') =
       [CreateCall ''dt/sinara/dual-pid/00'' ''mqtt'', ConvertCall 1000, ConvertCall 0,
        ConvertCall 10, ConvertCall (- 10), ConvertCall 5,
        SetCall (''dt/sinara/dual-pid/00'', ''mqtt'') ''/pid_ch/1''
          [(''p'', Arg (3 / 2)), (''i'', Arg (1 / 5)), (''d'', Arg 0),
           (''x_offset'', Units 3276800), (''y_offset'', Units 0), (''y_min'', Units 32768),
           (''y_max'', Units (- 32768)), (''i_limit'', Units 16384)]]"
    by (simp add: odd_args_def example_args_def str_int_1)
  then have m: "((''dt/sinara/dual-pid/00'', ''mqtt''), ''/pid_ch/1'', odd_value)
        \<in> set (writes (fst (configure (bench []) odd_args ''dt/sinara/dual-pid/00'')))"
    by (simp add: odd_value_def)
  from t m have "\<exists>xo yo ymin ymax il.
      voltage_to_machine_units (bench []) (x_offset odd_args) = Inr xo \<and>
      voltage_to_machine_units (bench []) (y_offset odd_args) = Inr yo \<and>
      voltage_to_machine_units (bench []) (y_min odd_args) = Inr ymin \<and>
      voltage_to_machine_units (bench []) (y_max odd_args) = Inr ymax \<and>
      voltage_to_machine_units (bench []) (i_limit odd_args) = Inr il \<and>
      odd_value = [(''p'', Arg (p odd_args)), (''i'', Arg (i odd_args)), (''d'', Arg (d odd_args)),
                   (''x_offset'', Units xo), (''y_offset'', Units yo), (''y_min'', Units ymin),
                   (''y_max'', Units ymax), (''i_limit'', Units il)]"
    by blast
  with h have "odd_value =
       [(''p'', Arg (p odd_args)), (''i'', Arg (i odd_args)), (''d'', Arg (d odd_args)),
        (''x_offset'', Units 3276800), (''y_offset'', Units 0), (''y_min'', Units 32768),
        (''y_max'', Units (- 32768)), (''i_limit'', Units 16384)]"
    by auto
  with h tr m show ?thesis by blast
qed



text \<open>
  C9, amended. The calls of every run are an initial part of one sequence, the order of the
  script: the discovery query (unless \<^verbatim>\<open>--no-discover\<close> is given), then opening the interface,
  then the five conversions in the order \<open>x_offset\<close>, \<open>y_offset\<close>, \<open>y_min\<close>, \<open>y_max\<close>, \<open>i_limit\<close>,
  then the single write; a run that ends without an exception made all of these calls and its
  write was acknowledged. A run in which the prefix is resolved to one device, the interface
  opens and the helper returns for each voltage makes exactly these calls, the write last.
\<close>

theorem steps_in_program_order:
  "(\<exists>pre h val rest.
      (if no_discover a then [] else [DiscoverCall (broker a) (prefix a)])
        @ [CreateCall pre (broker a), ConvertCall (x_offset a), ConvertCall (y_offset a),
           ConvertCall (y_min a), ConvertCall (y_max a), ConvertCall (i_limit a),
           SetCall h (''/pid_ch/'' @ str_int (channel a)) val]
        = fst (main w a) @ rest
      \<and> (snd (main w a) = Inr ()
         \<longrightarrow> rest = [] \<and> interface_set w h (''/pid_ch/'' @ str_int (channel a)) val = Inr ()))
   \<and> ((if no_discover a then dev = prefix a
        else miniconf_discover w (broker a) (prefix a) = Inr [dev])
       \<and> miniconf_create w dev (broker a) = Inr h0
       \<and> voltage_to_machine_units w (x_offset a) = Inr xo
       \<and> voltage_to_machine_units w (y_offset a) = Inr yo
       \<and> voltage_to_machine_units w (y_min a) = Inr ymin
       \<and> voltage_to_machine_units w (y_max a) = Inr ymax
       \<and> voltage_to_machine_units w (i_limit a) = Inr il
      \<longrightarrow> fst (main w a) =
            (if no_discover a then [] else [DiscoverCall (broker a) (prefix a)])
              @ [CreateCall dev (broker a), ConvertCall (x_offset a), ConvertCall (y_offset a),
                 ConvertCall (y_min a), ConvertCall (y_max a), ConvertCall (i_limit a),
                 SetCall h0 (''/pid_ch/'' @ str_int (channel a))
                   [(''p'', Arg (p a)), (''i'', Arg (i a)), (''d'', Arg (d a)),
                    (''x_offset'', Units xo), (''y_offset'', Units yo), (''y_min'', Units ymin),
                    (''y_max'', Units ymax), (''i_limit'', Units il)]])
   \<and> sorted (map step_of_code (fst (main w a)))"
proof (intro conjI impI)
  from main_shape [of w a]
  show "\<exists>pre h val rest.
      (if no_discover a then [] else [DiscoverCall (broker a) (prefix a)])
        @ [CreateCall pre (broker a), ConvertCall (x_offset a), ConvertCall (y_offset a),
           ConvertCall (y_min a), ConvertCall (y_max a), ConvertCall (i_limit a),
           SetCall h (''/pid_ch/'' @ str_int (channel a)) val]
        = fst (main w a) @ rest
      \<and> (snd (main w a) = Inr ()
         \<longrightarrow> rest = [] \<and> interface_set w h (''/pid_ch/'' @ str_int (channel a)) val = Inr ())"
  proof (elim disjE conjE exE)
    assume m: "main w a = configure w a (prefix a)" and nd: "no_discover a"
    from configure_calls [of "prefix a" a w] m nd show ?thesis by auto
  next
    fix dev'
    assume m: "main w a = (DiscoverCall (broker a) (prefix a) # fst (configure w a dev'),
                          snd (configure w a dev'))"
      and nd: "\<not> no_discover a"
    from configure_calls [of dev' a w] m nd show ?thesis by auto
  next
    fix e
    assume "main w a = ([DiscoverCall (broker a) (prefix a)], Inl e)" and "\<not> no_discover a"
    then show ?thesis by simp
  qed
next
  assume h: "(if no_discover a then dev = prefix a
        else miniconf_discover w (broker a) (prefix a) = Inr [dev])
       \<and> miniconf_create w dev (broker a) = Inr h0
       \<and> voltage_to_machine_units w (x_offset a) = Inr xo
       \<and> voltage_to_machine_units w (y_offset a) = Inr yo
       \<and> voltage_to_machine_units w (y_min a) = Inr ymin
       \<and> voltage_to_machine_units w (y_max a) = Inr ymax
       \<and> voltage_to_machine_units w (i_limit a) = Inr il"
  then have c: "fst (configure w a dev) =
      [CreateCall dev (broker a), ConvertCall (x_offset a), ConvertCall (y_offset a),
       ConvertCall (y_min a), ConvertCall (y_max a), ConvertCall (i_limit a),
       SetCall h0 (''/pid_ch/'' @ str_int (channel a))
         [(''p'', Arg (p a)), (''i'', Arg (i a)), (''d'', Arg (d a)),
          (''x_offset'', Units xo), (''y_offset'', Units yo), (''y_min'', Units ymin),
          (''y_max'', Units ymax), (''i_limit'', Units il)]]"
    by (simp add: configure_through)
  show "fst (main w a) =
            (if no_discover a then [] else [DiscoverCall (broker a) (prefix a)])
              @ [CreateCall dev (broker a), ConvertCall (x_offset a), ConvertCall (y_offset a),
                 ConvertCall (y_min a), ConvertCall (y_max a), ConvertCall (i_limit a),
                 SetCall h0 (''/pid_ch/'' @ str_int (channel a))
                   [(''p'', Arg (p a)), (''i'', Arg (i a)), (''d'', Arg (d a)),
                    (''x_offset'', Units xo), (''y_offset'', Units yo), (''y_min'', Units ymin),
                    (''y_max'', Units ymax), (''i_limit'', Units il)]]"
  proof (cases "no_discover a")
    case True
    with h have "dev = prefix a" by simp
    with True c show ?thesis by (simp add: main_no_discover)
  next
    case False
    with h have "miniconf_discover w (broker a) (prefix a) = Inr [dev]" by simp
    from main_discover_one [OF False this] False c show ?thesis by simp
  qed
next
  show "sorted (map step_of_code (fst (main w a)))"
    using main_shape [of w a] by (auto simp: configure_steps)
qed

text \<open>
  On the bench, with discovery finding one device: the eight calls in the order of the script,
  and the run ends acknowledged.
\<close>

theorem steps_in_program_order_witness:
  "(if no_discover example_args then ''dt/sinara/dual-pid/00'' = prefix example_args
    else miniconf_discover (bench [''dt/sinara/dual-pid/00'']) (broker example_args)
           (prefix example_args) = Inr [''dt/sinara/dual-pid/00''])
   \<and> miniconf_create (bench [''dt/sinara/dual-pid/00'']) ''dt/sinara/dual-pid/00''
        (broker example_args) = Inr (''dt/sinara/dual-pid/00'', ''mqtt'')
   \<and> voltage_to_machine_units (bench [''dt/sinara/dual-pid/00'']) (x_offset example_args) = Inr 0
   \<and> voltage_to_machine_units (bench [''dt/sinara/dual-pid/00'']) (y_offset example_args) = Inr 0
   \<and> voltage_to_machine_units (bench [''dt/sinara/dual-pid/00'']) (y_min example_args)
        = Inr (- 32768)
   \<and> voltage_to_machine_units (bench [''dt/sinara/dual-pid/00'']) (y_max example_args) = Inr 32768
   \<and> voltage_to_machine_units (bench [''dt/sinara/dual-pid/00'']) (i_limit example_args)
        = Inr 16384
   \<and> snd (main (bench [''dt/sinara/dual-pid/00'']) example_args) = Inr ()
   \<and> fst (main (bench [''dt/sinara/dual-pid/00'']) example_args) =
       [DiscoverCall ''mqtt'' ''dt/sinara/dual-pid/+'',
        CreateCall ''dt/sinara/dual-pid/00'' ''mqtt'', ConvertCall 0, ConvertCall 0,
        ConvertCall (- 10), ConvertCall 10, ConvertCall 5,
        SetCall (''dt/sinara/dual-pid/00'', ''mqtt'') ''/pid_ch/0''
          [(''p'', Arg (3 / 2)), (''i'', Arg (1 / 5)), (''d'', Arg 0), (''x_offset'', Units 0),
           (''y_offset'', Units 0), (''y_min'', Units (- 32768)), (''y_max'', Units 32768),
           (''i_limit'', Units 16384)]]
   \<and> map step_of_code (fst (main (bench [''dt/sinara/dual-pid/00'']) example_args))
       = [0, 1, 2, 2, 2, 2, 2, 3]"
proof -
  have h: "(if no_discover example_args then ''dt/sinara/dual-pid/00'' = prefix example_args
    else miniconf_discover (bench [''dt/sinara/dual-pid/00'']) (broker example_args)
           (prefix example_args) = Inr [''dt/sinara/dual-pid/00''])
   \<and> miniconf_create (bench [''dt/sinara/dual-pid/00'']) ''dt/sinara/dual-pid/00''
        (broker example_args) = Inr (''dt/sinara/dual-pid/00'', ''mqtt'')
   \<and> voltage_to_machine_units (bench [''dt/sinara/dual-pid/00'']) (x_offset example_args) = Inr 0
   \<and> voltage_to_machine_units (bench [''dt/sinara/dual-pid/00'']) (y_offset example_args) = Inr 0
   \<and> voltage_to_machine_units (bench [''dt/sinara/dual-pid/00'']) (y_min example_args)
        = Inr (- 32768)
   \<and> voltage_to_machine_units (bench [''dt/sinara/dual-pid/00'']) (y_max example_args) = Inr 32768
   \<and> voltage_to_machine_units (bench [''dt/sinara/dual-pid/00'']) (i_limit example_args)
        = Inr 16384"
    by (simp add: bench_def example_args_def to_machine_units_def round_def)
  have ok: "snd (main (bench [''dt/sinara/dual-pid/00'']) example_args) = Inr ()"
    by (simp add: example_main)
  note t = steps_in_program_order [where a = example_args and dev = "''dt/sinara/dual-pid/00''"
      and w = "bench [''dt/sinara/dual-pid/00'']" and ?h0.0 = "(''dt/sinara/dual-pid/00'', ''mqtt'')"
      and xo = 0 and yo = 0 and ymin = "- 32768" and ymax = 32768 and il = 16384]
  from t h have "fst (main (bench [''dt/sinara/dual-pid/00'']) example_args) =
       (if no_discover example_args then []
        else [DiscoverCall (broker example_args) (prefix example_args)])
        @ [CreateCall ''dt/sinara/dual-pid/00'' (broker example_args),
           ConvertCall (x_offset example_args), ConvertCall (y_offset example_args),
           ConvertCall (y_min example_args), ConvertCall (y_max example_args),
           ConvertCall (i_limit example_args),
           SetCall (''dt/sinara/dual-pid/00'', ''mqtt'') (''/pid_ch/'' @ str_int (channel example_args))
             [(''p'', Arg (p example_args)), (''i'', Arg (i example_args)),
              (''d'', Arg (d example_args)), (''x_offset'', Units 0), (''y_offset'', Units 0),
              (''y_min'', Units (- 32768)), (''y_max'', Units 32768), (''i_limit'', Units 16384)]]"
    by blast
  then have tr: "fst (main (bench [''dt/sinara/dual-pid/00'']) example_args) =
       [DiscoverCall ''mqtt'' ''dt/sinara/dual-pid/+'',
        CreateCall ''dt/sinara/dual-pid/00'' ''mqtt'', ConvertCall 0, ConvertCall 0,
        ConvertCall (- 10), ConvertCall 10, ConvertCall 5,
        SetCall (''dt/sinara/dual-pid/00'', ''mqtt'') ''/pid_ch/0''
          [(''p'', Arg (3 / 2)), (''i'', Arg (1 / 5)), (''d'', Arg 0), (''x_offset'', Units 0),
           (''y_offset'', Units 0), (''y_min'', Units (- 32768)), (''y_max'', Units 32768),
           (''i_limit'', Units 16384)]]"
    by (simp add: example_args_def str_int_0)
  then have st: "map step_of_code (fst (main (bench [''dt/sinara/dual-pid/00'']) example_args))
       = [0, 1, 2, 2, 2, 2, 2, 3]"
    by simp
  from h ok tr st show ?thesis by blast
qed

end
